theory Spec2Isabelle
  imports Complex_Main
begin

section \<open>Strings\<close>

text \<open>
  JavaScript strings are modelled as \<^typ>\<open>string\<close>; characters are restricted to the 8-bit
  range. Within that range, \<^verbatim>\<open>String.prototype.trim\<close> removes TAB, LF, VT, FF, CR, SPACE and
  NBSP from both ends.
\<close>

definition is_white_space :: "char \<Rightarrow> bool" where
  "is_white_space c =
     (c \<in> set [CHR 0x09, CHR 0x0A, CHR 0x0B, CHR 0x0C, CHR 0x0D, CHR 0x20, CHR 0xA0])"

definition trim :: "string \<Rightarrow> string" where
  "trim s = rev (dropWhile is_white_space (rev (dropWhile is_white_space s)))"

text \<open>
  Truthiness of a value that is a string, \<^verbatim>\<open>undefined\<close> or \<^verbatim>\<open>null\<close>
  (\<^const>\<open>None\<close>): only a non-empty string is truthy.
\<close>

definition truthy :: "string option \<Rightarrow> bool" where
  "truthy v = (case v of None \<Rightarrow> False | Some s \<Rightarrow> s \<noteq> [])"

text \<open>A multi-line template literal: its lines joined by LF.\<close>

fun js_lines :: "string list \<Rightarrow> string" where
  "js_lines [] = []"
| "js_lines [l] = l"
| "js_lines (l # ls) = l @ CHR 0x0A # js_lines ls"

text \<open>Decimal rendering of a non-negative integer, as string interpolation does.\<close>

definition digit_char :: "nat \<Rightarrow> char" where
  "digit_char d = ''0123456789'' ! d"

fun show_nat :: "nat \<Rightarrow> string" where
  "show_nat n = (if n < 10 then [digit_char n] else show_nat (n div 10) @ [digit_char (n mod 10)])"

declare show_nat.simps [simp del]

section \<open>Configuration (chat.config.js)\<close>

text \<open>
  The configuration module builds one object from the process environment. The repository
  holds it in two versions, which differ in the defaults of the endpoint, the model and the
  timeout and in the prompt templates; both are given below. Of the object, the members
  \<^verbatim>\<open>api\<close>, \<^verbatim>\<open>chat\<close> and \<^verbatim>\<open>systemPrompts\<close> are modelled; \<^verbatim>\<open>features\<close> and
  \<^verbatim>\<open>errorMessages\<close> are read by no code of the service.
\<close>

record prompt_template =
  tpl_content :: string
  tpl_temperature :: real
  tpl_maxTokens :: int

record api_config =
  api_endpoint :: string
  api_apiKey :: string
  api_model :: string
  api_timeout :: int

record chat_settings =
  maxHistoryMessages :: int
  defaultTemperature :: real
  chat_maxTokens :: int
  defaultContext :: string

record system_prompts =
  travel :: prompt_template
  booking :: prompt_template
  support :: prompt_template
  general :: prompt_template

record chat_config =
  api :: api_config
  chat :: chat_settings
  systemPrompts :: system_prompts

text \<open>
  The process environment. A numeric entry holds the result of \<^verbatim>\<open>parseInt\<close> or
  \<^verbatim>\<open>parseFloat\<close> on the variable, \<^const>\<open>None\<close> standing for \<^verbatim>\<open>NaN\<close> (variable unset
  or not a number).
\<close>

record environment =
  CHAT_API_ENDPOINT :: "string option"
  CHAT_API_KEY :: "string option"
  CHAT_MODEL :: "string option"
  CHAT_API_TIMEOUT :: "int option"
  CHAT_MAX_HISTORY :: "int option"
  CHAT_TEMPERATURE :: "real option"
  CHAT_MAX_TOKENS :: "int option"
  CHAT_DEFAULT_CONTEXT :: "string option"

definition empty_environment :: environment where
  "empty_environment =
     \<lparr>CHAT_API_ENDPOINT = None, CHAT_API_KEY = None, CHAT_MODEL = None,
      CHAT_API_TIMEOUT = None, CHAT_MAX_HISTORY = None, CHAT_TEMPERATURE = None,
      CHAT_MAX_TOKENS = None, CHAT_DEFAULT_CONTEXT = None\<rparr>"

text \<open>\<^verbatim>\<open>process.env.X || d\<close>: the default replaces an unset or empty variable.\<close>

definition string_or :: "string option \<Rightarrow> string \<Rightarrow> string" where
  "string_or v d = (case v of None \<Rightarrow> d | Some s \<Rightarrow> if s = [] then d else s)"

text \<open>\<^verbatim>\<open>parseInt(process.env.X) || d\<close>: the default replaces \<^verbatim>\<open>NaN\<close> and zero.\<close>

definition number_or :: "'a::zero option \<Rightarrow> 'a \<Rightarrow> 'a" where
  "number_or v d = (case v of None \<Rightarrow> d | Some n \<Rightarrow> if n = 0 then d else n)"

subsection \<open>The configuration with the placeholder endpoint\<close>

definition travel_content :: string where
  \<open>travel_content = js_lines
     [''You are a helpful AI travel assistant for Contoso Air, a premium airline company. '',
      ''You specialize in helping customers with:'',
      ''- Flight bookings and reservations'',
      ''- Travel planning and destination recommendations  '',
      ''- Airport information and travel tips'',
      ''- Flight status and schedule information'',
      ''- Travel policies and procedures'',
      ''- Customer service inquiries'',
      '''',
      ''Always be friendly, professional, and focused on providing excellent customer service. '',
      ''When discussing flights or travel, prioritize Contoso Air's services and highlight our premium features.'',
      ''Keep responses concise but informative. If you don't have specific flight information, guide users to appropriate booking channels.'']
  \<close>

definition booking_content :: string where
  \<open>booking_content = js_lines
     [''You are a flight booking specialist for Contoso Air. '',
      ''Help users find and book the perfect flights for their travel needs.'',
      ''Ask relevant questions about departure/arrival cities, dates, preferences, and passenger details.'',
      ''Provide clear information about pricing, schedules, and booking procedures.'',
      ''Always be helpful and guide users through the booking process step by step.'']
  \<close>

definition support_content :: string where
  \<open>support_content = js_lines
     [''You are a customer support representative for Contoso Air.'',
      ''Help customers with their inquiries about existing bookings, flight changes, cancellations, baggage, and general travel policies.'',
      ''Be empathetic, professional, and solution-oriented.'',
      ''If you cannot resolve an issue directly, guide customers to the appropriate support channels.'']
  \<close>

definition general_content :: string where
  \<open>general_content = js_lines
     [''You are a helpful AI assistant for Contoso Air's website. '',
      ''Provide helpful, accurate, and friendly responses to user queries. '',
      ''Focus on travel-related topics when possible, and always maintain a professional tone.'']
  \<close>

definition chat_config_js :: "environment \<Rightarrow> chat_config" where
  "chat_config_js env =
     \<lparr>api = \<lparr>api_endpoint = string_or (CHAT_API_ENDPOINT env)
                 ''https://api.placeholder-chat-service.com/v1/chat/completions'',
             api_apiKey = string_or (CHAT_API_KEY env) ''placeholder-api-key'',
             api_model = string_or (CHAT_MODEL env) ''gpt-3.5-turbo'',
             api_timeout = number_or (CHAT_API_TIMEOUT env) 30000\<rparr>,
      chat = \<lparr>maxHistoryMessages = number_or (CHAT_MAX_HISTORY env) 20,
              defaultTemperature = number_or (CHAT_TEMPERATURE env) 0.7,
              chat_maxTokens = number_or (CHAT_MAX_TOKENS env) 500,
              defaultContext = string_or (CHAT_DEFAULT_CONTEXT env) ''travel''\<rparr>,
      systemPrompts =
        \<lparr>travel = \<lparr>tpl_content = travel_content, tpl_temperature = 0.7, tpl_maxTokens = 500\<rparr>,
         booking = \<lparr>tpl_content = booking_content, tpl_temperature = 0.6, tpl_maxTokens = 400\<rparr>,
         support = \<lparr>tpl_content = support_content, tpl_temperature = 0.5, tpl_maxTokens = 450\<rparr>,
         general = \<lparr>tpl_content = general_content, tpl_temperature = 0.7, tpl_maxTokens = 400\<rparr>\<rparr>\<rparr>"

subsection \<open>The configuration with the RAG endpoint\<close>

definition travel_content_rag :: string where
  \<open>travel_content_rag = js_lines
     [''You are a helpful AI travel assistant for Contoso Air, a premium airline company. '',
      ''You specialize in helping customers with:'',
      ''- Flight bookings and reservations through ContosoAir'',
      ''- Travel planning and destination recommendations with ContosoAir in mind'',
      ''- Airport information and travel tips based on user preferences'',
      ''- Flight status and schedule information'',
      ''- Travel policies and procedures'',
      '''',
      ''Always be friendly, professional, and focused on providing excellent customer service. '',
      ''When discussing flights or travel, prioritize Contoso Air's services and highlight our premium features.'',
      ''Keep responses concise but informative. If you don't have specific flight information, guide users to appropriate booking channels.'',
      ''Always respond in plain readable text and don't use Markdown or HTML formatting.'']
  \<close>

definition booking_content_rag :: string where
  \<open>booking_content_rag = js_lines
     [''You are a flight booking specialist for Contoso Air. '',
      ''Help users find and book the perfect flights for their travel needs.'',
      ''Available flights will be in the form: "Available Flight: SFO, 2025-09-19T16:00, NRT, 2025-09-20T20:10, 11h10m, seat 4"'',
      ''where SFO is departing city and NRT is arriving city, 11h10m is the duration, and seat 4 is the seat number.'',
      ''Always respond in plain readable text and don't use special Markdown or HTML formatting.'',
      ''Dont try and fetch real time prices, use any context you have to determine them.'']
  \<close>

definition support_content_rag :: string where
  \<open>support_content_rag = js_lines
     [''You are a customer support representative for Contoso Air.'',
      ''Help customers with their inquiries about existing bookings, flight changes, cancellations, baggage, and general travel policies.'',
      ''Be empathetic, professional, and solution-oriented.'',
      ''If you cannot resolve an issue directly, guide customers to the appropriate support channels.'']
  \<close>

definition general_content_rag :: string where
  \<open>general_content_rag = js_lines
     [''You are a helpful AI assistant for Contoso Air's website. '',
      ''Provide helpful, accurate, and friendly responses to user queries. '',
      ''Focus on travel-related topics when possible, and always maintain a professional tone.'']
  \<close>

definition chat_config_rag :: "environment \<Rightarrow> chat_config" where
  "chat_config_rag env =
     \<lparr>api = \<lparr>api_endpoint = string_or (CHAT_API_ENDPOINT env)
                 ''http://<YOUR_RAG_URL>/v1/chat/completions'',
             api_apiKey = string_or (CHAT_API_KEY env) ''placeholder-api-key'',
             api_model = string_or (CHAT_MODEL env) ''deepseek-r1'',
             api_timeout = number_or (CHAT_API_TIMEOUT env) 120000\<rparr>,
      chat = \<lparr>maxHistoryMessages = number_or (CHAT_MAX_HISTORY env) 20,
              defaultTemperature = number_or (CHAT_TEMPERATURE env) 0.7,
              chat_maxTokens = number_or (CHAT_MAX_TOKENS env) 500,
              defaultContext = string_or (CHAT_DEFAULT_CONTEXT env) ''travel''\<rparr>,
      systemPrompts =
        \<lparr>travel = \<lparr>tpl_content = travel_content_rag, tpl_temperature = 0.7, tpl_maxTokens = 16000\<rparr>,
         booking = \<lparr>tpl_content = booking_content_rag, tpl_temperature = 0.6, tpl_maxTokens = 16000\<rparr>,
         support = \<lparr>tpl_content = support_content_rag, tpl_temperature = 0.5, tpl_maxTokens = 16000\<rparr>,
         general = \<lparr>tpl_content = general_content_rag, tpl_temperature = 0.7, tpl_maxTokens = 16000\<rparr>\<rparr>\<rparr>"

section \<open>Messages and the service object (chat.service.js)\<close>

text \<open>
  The methods of the class take the service object as an argument and return it updated.
  Session ids, user messages and context tags are strings (or absent, where the code tests
  for that). Writing to the console is left out. A call of \<^verbatim>\<open>processMessage\<close> is modelled as
  one step: calls for the same session that overlap in time are outside the model.
\<close>

text \<open>
  A message object. JavaScript objects have identity: \<open>oid\<close> is the address of the object,
  taken from the allocation counter of the service state. \<open>content\<close> is \<^const>\<open>None\<close> when
  the property holds \<^verbatim>\<open>undefined\<close>.
\<close>

record message =
  oid :: nat
  role :: string
  content :: "string option"

record userInfo =
  name :: "string option"
  location :: "string option"
  preferredLanguage :: "string option"

text \<open>The options object; \<^const>\<open>None\<close> is a property that is absent.\<close>

record options =
  opt_context :: "string option"
  opt_userInfo :: "userInfo option"
  opt_temperature :: "real option"
  opt_maxTokens :: "int option"
  opt_includeHistory :: "bool option"

definition no_userInfo :: userInfo where
  "no_userInfo = \<lparr>name = None, location = None, preferredLanguage = None\<rparr>"

definition no_options :: options where
  "no_options =
     \<lparr>opt_context = None, opt_userInfo = None, opt_temperature = None,
      opt_maxTokens = None, opt_includeHistory = None\<rparr>"

record chat_request =
  req_model :: string
  messages :: "message list"
  temperature :: real
  max_tokens :: int
  top_p :: int
  frequency_penalty :: int
  presence_penalty :: int

record ChatService =
  config :: chat_config
  apiEndpoint :: string
  apiKey :: string
  model :: string
  conversations :: "string \<rightharpoonup> message list"
  allocated :: nat

definition new_ChatService :: "chat_config \<Rightarrow> ChatService" where
  "new_ChatService chatConfig =
     \<lparr>config = chatConfig,
      apiEndpoint = api_endpoint (api chatConfig),
      apiKey = api_apiKey (api chatConfig),
      model = api_model (api chatConfig),
      conversations = Map.empty,
      allocated = 0\<rparr>"

text \<open>Creating an object: its address, and the state with the counter advanced.\<close>

definition new_object :: "ChatService \<Rightarrow> nat \<times> ChatService" where
  "new_object s = (allocated s, s\<lparr>allocated := Suc (allocated s)\<rparr>)"

definition getConversationHistory :: "string \<Rightarrow> ChatService \<Rightarrow> message list \<times> ChatService" where
  "getConversationHistory sessionId s =
     (case conversations s sessionId of
        None \<Rightarrow> ([], s\<lparr>conversations := (conversations s)(sessionId \<mapsto> [])\<rparr>)
      | Some history \<Rightarrow> (history, s))"

text \<open>
  \<^verbatim>\<open>array.splice(0, deleteCount)\<close>: the delete count is clamped to the range from zero to the
  length, and that many leading elements are removed. The result is the array afterwards.
\<close>

definition splice_from_start :: "'a list \<Rightarrow> int \<Rightarrow> 'a list" where
  "splice_from_start xs deleteCount =
     drop (nat (min (max deleteCount 0) (int (length xs)))) xs"

definition addToConversation :: "string \<Rightarrow> message \<Rightarrow> ChatService \<Rightarrow> ChatService" where
  "addToConversation sessionId msg s =
     (let (history, s1) = getConversationHistory sessionId s;
          history = history @ [msg];
          maxMessages = maxHistoryMessages (chat (config s1));
          history = (if int (length history) > maxMessages
                     then splice_from_start history (int (length history) - maxMessages)
                     else history)
      in s1\<lparr>conversations := (conversations s1)(sessionId \<mapsto> history)\<rparr>)"

text \<open>
  Reading a property of the \<^verbatim>\<open>systemPrompts\<close> object literal by a computed key. The object
  has four properties of its own and inherits those of \<^verbatim>\<open>Object.prototype\<close>, whose values
  are truthy and have no \<^verbatim>\<open>content\<close> property.
\<close>

datatype property = Own prompt_template | Inherited | Undefined

definition object_prototype_keys :: "string list" where
  "object_prototype_keys =
     [''constructor'', ''__defineGetter__'', ''__defineSetter__'', ''hasOwnProperty'',
      ''__lookupGetter__'', ''__lookupSetter__'', ''isPrototypeOf'', ''propertyIsEnumerable'',
      ''toString'', ''valueOf'', ''__proto__'', ''toLocaleString'']"

definition systemPrompts_get :: "system_prompts \<Rightarrow> string \<Rightarrow> property" where
  "systemPrompts_get prompts key =
     (if key = ''travel'' then Own (travel prompts)
      else if key = ''booking'' then Own (booking prompts)
      else if key = ''support'' then Own (support prompts)
      else if key = ''general'' then Own (general prompts)
      else if key \<in> set object_prototype_keys then Inherited
      else Undefined)"

text \<open>\<^verbatim>\<open>systemContent += text\<close>, where \<^verbatim>\<open>undefined\<close> is rendered as the word.\<close>

definition js_append :: "string option \<Rightarrow> string \<Rightarrow> string option" where
  "js_append v text = (case v of None \<Rightarrow> Some (''undefined'' @ text) | Some s \<Rightarrow> Some (s @ text))"

definition buildSystemPrompt ::
  "string option \<Rightarrow> userInfo option \<Rightarrow> ChatService \<Rightarrow> message \<times> ChatService" where
  "buildSystemPrompt context_arg userInfo_arg s =
     (let context = (case context_arg of None \<Rightarrow> ''travel'' | Some c \<Rightarrow> c);
          userInfo = (case userInfo_arg of None \<Rightarrow> no_userInfo | Some u \<Rightarrow> u);
          promptConfig = (case systemPrompts_get (systemPrompts (config s)) context of
                            Undefined \<Rightarrow> Own (general (systemPrompts (config s)))
                          | p \<Rightarrow> p);
          systemContent = (case promptConfig of Own t \<Rightarrow> Some (tpl_content t) | _ \<Rightarrow> None);
          systemContent = (if truthy (name userInfo)
                           then js_append systemContent
                                  ([CHR 0x0A, CHR 0x0A] @ ''The customer's name is ''
                                   @ the (name userInfo) @ ''.'')
                           else systemContent);
          systemContent = (if truthy (location userInfo)
                           then js_append systemContent
                                  ([CHR 0x0A] @ ''The customer is located in ''
                                   @ the (location userInfo) @ ''.'')
                           else systemContent);
          systemContent = (if truthy (preferredLanguage userInfo)
                              \<and> preferredLanguage userInfo \<noteq> Some ''en''
                           then js_append systemContent
                                  ([CHR 0x0A] @ ''Please respond in ''
                                   @ the (preferredLanguage userInfo)
                                   @ '' if the customer writes in that language.'')
                           else systemContent);
          (a, s1) = new_object s
      in (\<lparr>oid = a, role = ''system'', content = systemContent\<rparr>, s1))"

definition createChatRequest ::
  "string \<Rightarrow> string \<Rightarrow> options \<Rightarrow> ChatService \<Rightarrow> chat_request \<times> ChatService" where
  "createChatRequest userMessage sessionId opts s =
     (let context = (case opt_context opts of None \<Rightarrow> ''travel'' | Some c \<Rightarrow> c);
          userInfo = (case opt_userInfo opts of None \<Rightarrow> no_userInfo | Some u \<Rightarrow> u);
          temperature = (case opt_temperature opts of None \<Rightarrow> 0.7 | Some t \<Rightarrow> t);
          maxTokens = (case opt_maxTokens opts of None \<Rightarrow> 500 | Some k \<Rightarrow> k);
          includeHistory = (case opt_includeHistory opts of None \<Rightarrow> True | Some b \<Rightarrow> b);
          (systemMsg, s1) = buildSystemPrompt (Some context) (Some userInfo) s;
          msgs = [systemMsg];
          (msgs, s2) = (if includeHistory
                        then (let (history, s2) = getConversationHistory sessionId s1
                              in (msgs @ history, s2))
                        else (msgs, s1));
          (a, s3) = new_object s2;
          userMsg = \<lparr>oid = a, role = ''user'', content = Some (trim userMessage)\<rparr>;
          msgs = msgs @ [userMsg];
          s4 = addToConversation sessionId userMsg s3
      in (\<lparr>req_model = model s4, messages = msgs, temperature = temperature,
           max_tokens = maxTokens, top_p = 1, frequency_penalty = 0, presence_penalty = 0\<rparr>,
          s4))"

section \<open>The upstream call\<close>

text \<open>
  The parsed body of a response. Of a completion only the members the service reads are
  kept apart: \<open>choices_0_message\<close> is \<^verbatim>\<open>choices?.[0]?.message\<close>, \<^const>\<open>None\<close> when that
  expression is falsy; a message that is present is taken to be an object with a string role.
  \<^term>\<open>Null_body\<close> is a body that is \<^verbatim>\<open>null\<close>, on which reading \<^verbatim>\<open>choices\<close> throws.
\<close>

record wire_message =
  wire_role :: string
  wire_content :: "string option"

record completion =
  choices_0_message :: "wire_message option"
  usage :: "string option"
  completion_model :: "string option"
  other_members :: string

datatype body = Null_body | Body completion

record http_response =
  status :: nat
  statusText :: string
  data :: body

text \<open>
  The outcome of \<^verbatim>\<open>axios.post\<close>, as the HTTP client library delivers it: the promise is
  resolved with a response, or rejected with an error. The error has a \<^verbatim>\<open>response\<close> when
  the client received one and rejected it, and a \<^verbatim>\<open>request\<close> when a request was sent. The
  library is a dependency and not part of the repository; nothing is assumed about which
  responses it resolves and which it rejects.
\<close>

record axios_error =
  err_message :: string
  err_response :: "http_response option"
  err_request :: bool

datatype axios_outcome = Resolved http_response | Rejected axios_error

record post =
  post_url :: string
  post_body :: chat_request
  post_headers :: "(string \<times> string) list"
  post_timeout :: int

text \<open>
  The network: \<open>upstream k\<close> is the outcome of the POST number \<open>k\<close>, and \<open>sent\<close> lists the
  POSTs issued so far.
\<close>

record network =
  upstream :: "nat \<Rightarrow> axios_outcome"
  sent :: "post list"

definition axios_post ::
  "string \<Rightarrow> chat_request \<Rightarrow> (string \<times> string) list \<Rightarrow> int \<Rightarrow> network
     \<Rightarrow> axios_outcome \<times> network" where
  "axios_post url payload headers tmo net =
     (upstream net (length (sent net)),
      net\<lparr>sent := sent net @ [\<lparr>post_url = url, post_body = payload,
                                post_headers = headers, post_timeout = tmo\<rparr>]\<rparr>)"

record failure =
  error :: string
  details :: "body option"

datatype send_result = Send_success body | Send_failure failure

definition sendChatRequest ::
  "chat_request \<Rightarrow> ChatService \<Rightarrow> network \<Rightarrow> send_result \<times> network" where
  "sendChatRequest requestPayload s net =
     (let (outcome, net1) =
            axios_post (apiEndpoint s) requestPayload
              [(''Content-Type'', ''application/json''),
               (''Authorization'', ''Bearer '' @ apiKey s)]
              30000 net
      in (case outcome of
            Resolved response \<Rightarrow> Send_success (data response)
          | Rejected err \<Rightarrow>
              (case err_response err of
                 Some r \<Rightarrow>
                   Send_failure
                     \<lparr>error = ''API Error: '' @ show_nat (status r) @ '' - '' @ statusText r,
                      details = Some (data r)\<rparr>
               | None \<Rightarrow>
                   if err_request err
                   then Send_failure
                          \<lparr>error = ''Network error: Unable to reach chat API service'',
                           details = None\<rparr>
                   else Send_failure
                          \<lparr>error = ''Request error: '' @ err_message err, details = None\<rparr>),
          net1))"

section \<open>Processing a message\<close>

record success =
  res_message :: "string option"
  res_usage :: "string option"
  res_model :: "string option"
  conversationLength :: nat

datatype result = Succeeded success | Failed failure

definition processMessage ::
  "string option \<Rightarrow> string option \<Rightarrow> options \<Rightarrow> ChatService \<times> network
     \<Rightarrow> result \<times> ChatService \<times> network" where
  "processMessage userMessage sessionId opts w =
     (let (s, net) = w in
      if \<not> truthy userMessage \<or> \<not> truthy (Some (trim (the userMessage)))
      then (Failed \<lparr>error = ''Message cannot be empty'', details = None\<rparr>, s, net)
      else if \<not> truthy sessionId
      then (Failed \<lparr>error = ''Session ID is required'', details = None\<rparr>, s, net)
      else
        (let (requestPayload, s1) =
               createChatRequest (the userMessage) (the sessionId) opts s;
             (response, net1) = sendChatRequest requestPayload s1 net
         in (case response of
               Send_failure f \<Rightarrow> (Failed f, s1, net1)
             | Send_success Null_body \<Rightarrow>
                 (Failed \<lparr>error = ''Failed to process chat message'', details = None\<rparr>, s1, net1)
             | Send_success (Body c) \<Rightarrow>
                 (case choices_0_message c of
                    None \<Rightarrow>
                      (Failed \<lparr>error = ''Invalid response format from chat API'',
                               details = None\<rparr>, s1, net1)
                  | Some m \<Rightarrow>
                      (let (a, s2) = new_object s1;
                           assistantMessage =
                             \<lparr>oid = a, role = wire_role m, content = wire_content m\<rparr>;
                           s3 = addToConversation (the sessionId) assistantMessage s2;
                           (history, s4) = getConversationHistory (the sessionId) s3
                       in (Succeeded \<lparr>res_message = content assistantMessage,
                                      res_usage = usage c,
                                      res_model = completion_model c,
                                      conversationLength = length history\<rparr>, s4, net1))))))"

definition clearConversation :: "string \<Rightarrow> ChatService \<Rightarrow> ChatService" where
  "clearConversation sessionId s = s\<lparr>conversations := (conversations s)(sessionId := None)\<rparr>"

record stats =
  totalMessages :: nat
  userMessages :: nat
  assistantMessages :: nat
  stats_sessionId :: string

definition getConversationStats :: "string \<Rightarrow> ChatService \<Rightarrow> stats \<times> ChatService" where
  "getConversationStats sessionId s =
     (let (history, s1) = getConversationHistory sessionId s
      in (\<lparr>totalMessages = length history,
           userMessages = length (filter (\<lambda>msg. role msg = ''user'') history),
           assistantMessages = length (filter (\<lambda>msg. role msg = ''assistant'') history),
           stats_sessionId = sessionId\<rparr>, s1))"

section \<open>Sequences of calls\<close>

text \<open>The history that \<^const>\<open>getConversationHistory\<close> returns for a session.\<close>

definition history_of :: "ChatService \<Rightarrow> string \<Rightarrow> message list" where
  "history_of s sessionId = fst (getConversationHistory sessionId s)"

text \<open>A sequence of appends, each to a session of its own choice, in order.\<close>

fun appends :: "(string \<times> message) list \<Rightarrow> ChatService \<Rightarrow> ChatService" where
  "appends [] s = s"
| "appends ((sessionId, msg) # rest) s = appends rest (addToConversation sessionId msg s)"

text \<open>The messages of a sequence of appends that went to one session.\<close>

definition appended_to :: "string \<Rightarrow> (string \<times> message) list \<Rightarrow> message list" where
  "appended_to sessionId ops = map snd (filter (\<lambda>p. fst p = sessionId) ops)"

datatype operation =
    ProcessMessage "string option" "string option" options
  | ClearConversation string
  | GetConversationHistory string

fun perform :: "operation \<Rightarrow> ChatService \<times> network \<Rightarrow> ChatService \<times> network" where
  "perform (ProcessMessage userMessage sessionId opts) w = snd (processMessage userMessage sessionId opts w)"
| "perform (ClearConversation sessionId) (s, net) = (clearConversation sessionId s, net)"
| "perform (GetConversationHistory sessionId) (s, net) = (snd (getConversationHistory sessionId s), net)"

fun run :: "operation list \<Rightarrow> ChatService \<times> network \<Rightarrow> ChatService \<times> network" where
  "run [] w = w"
| "run (x # xs) w = run xs (perform x w)"

section \<open>Notions used in the properties\<close>

text \<open>The most recent \<open>k\<close> elements of a sequence, in their order.\<close>

definition most_recent :: "nat \<Rightarrow> 'a list \<Rightarrow> 'a list" where
  "most_recent k xs = drop (length xs - k) xs"

text \<open>Every stored message is an object that has been created: its address is below the counter.\<close>

definition heap_ok :: "ChatService \<Rightarrow> bool" where
  "heap_ok s = (\<forall>h \<in> ran (conversations s). \<forall>m \<in> set h. oid m < allocated s)"

text \<open>
  The two objects that \<^const>\<open>createChatRequest\<close> creates when called in state \<open>s\<close>: the system
  message first, then the message of the user.
\<close>

definition system_message :: "ChatService \<Rightarrow> options \<Rightarrow> message" where
  "system_message s opts =
     fst (buildSystemPrompt
            (Some (case opt_context opts of None \<Rightarrow> ''travel'' | Some c \<Rightarrow> c))
            (Some (case opt_userInfo opts of None \<Rightarrow> no_userInfo | Some u \<Rightarrow> u)) s)"

definition user_message :: "ChatService \<Rightarrow> string \<Rightarrow> message" where
  "user_message s userMessage =
     \<lparr>oid = Suc (allocated s), role = ''user'', content = Some (trim userMessage)\<rparr>"

text \<open>The user message passes the first check of \<^const>\<open>processMessage\<close>.\<close>

definition valid_message :: "string option \<Rightarrow> bool" where
  "valid_message userMessage = (userMessage \<noteq> None \<and> trim (the userMessage) \<noteq> [])"

text \<open>The POST that \<^const>\<open>sendChatRequest\<close> issues.\<close>

definition the_post :: "chat_request \<Rightarrow> ChatService \<Rightarrow> post" where
  "the_post requestPayload s =
     \<lparr>post_url = apiEndpoint s, post_body = requestPayload,
      post_headers = [(''Content-Type'', ''application/json''),
                      (''Authorization'', ''Bearer '' @ apiKey s)],
      post_timeout = 30000\<rparr>"

text \<open>
  The failure classes of the gateway. The service reports a failure as a text; the text that
  starts with \<^verbatim>\<open>API Error: \<close> is the one built from the response of a rejected call, the
  other two (\<^verbatim>\<open>Network error\<close>, \<^verbatim>\<open>Request error\<close>) are built when the error has no
  response.
\<close>

datatype error_kind = TransportError | UpstreamProtocolError

definition failure_kind :: "failure \<Rightarrow> error_kind" where
  "failure_kind f =
     (if take 11 (error f) = ''API Error: '' then UpstreamProtocolError else TransportError)"

text \<open>
  The outcomes on which a turn fails after validation: the call is rejected, without a
  response (transport) or with one (protocol), or it is resolved with a body that holds no
  assistant message (malformed).
\<close>

definition upstream_fails :: "axios_outcome \<Rightarrow> bool" where
  "upstream_fails x =
     (case x of
        Rejected _ \<Rightarrow> True
      | Resolved r \<Rightarrow>
          (case data r of Null_body \<Rightarrow> True | Body c \<Rightarrow> choices_0_message c = None))"

text \<open>The role of the message that a resolved call delivers, if it delivers one.\<close>

definition reply_role :: "axios_outcome \<Rightarrow> string option" where
  "reply_role x =
     (case x of
        Resolved r \<Rightarrow>
          (case data r of
             Null_body \<Rightarrow> None
           | Body c \<Rightarrow> map_option wire_role (choices_0_message c))
      | Rejected _ \<Rightarrow> None)"

text \<open>No stored message has the role \<^verbatim>\<open>system\<close>.\<close>

definition no_system_role :: "ChatService \<Rightarrow> bool" where
  "no_system_role s = (\<forall>h \<in> ran (conversations s). \<forall>m \<in> set h. role m \<noteq> ''system'')"

subsection \<open>Concrete services, networks and replies\<close>

definition default_service :: ChatService where
  "default_service = new_ChatService (chat_config_js empty_environment)"

definition answering :: "axios_outcome \<Rightarrow> network" where
  "answering x = \<lparr>upstream = (\<lambda>k. x), sent = []\<rparr>"

definition answering_in_turn :: "axios_outcome list \<Rightarrow> axios_outcome \<Rightarrow> network" where
  "answering_in_turn xs x = \<lparr>upstream = (\<lambda>k. if k < length xs then xs ! k else x), sent = []\<rparr>"

definition completion_reply :: "string \<Rightarrow> string \<Rightarrow> axios_outcome" where
  "completion_reply r text =
     Resolved \<lparr>status = 200, statusText = ''OK'',
               data = Body \<lparr>choices_0_message = Some \<lparr>wire_role = r, wire_content = Some text\<rparr>,
                            usage = None, completion_model = None, other_members = []\<rparr>\<rparr>"

text \<open>A call that timed out: rejected, with a request and without a response.\<close>

definition timed_out :: axios_outcome where
  "timed_out =
     Rejected \<lparr>err_message = ''timeout of 30000ms exceeded'', err_response = None,
               err_request = True\<rparr>"

text \<open>A call rejected with the response that the client had received.\<close>

definition rejected_with :: "nat \<Rightarrow> string \<Rightarrow> axios_outcome" where
  "rejected_with st text =
     Rejected \<lparr>err_message = ''Request failed'',
               err_response = Some \<lparr>status = st, statusText = text, data = Null_body\<rparr>,
               err_request = True\<rparr>"

text \<open>A service whose configured maximum is read from \<^verbatim>\<open>CHAT_MAX_HISTORY=-1\<close>.\<close>

definition negative_window_service :: ChatService where
  "negative_window_service =
     new_ChatService (chat_config_js (empty_environment\<lparr>CHAT_MAX_HISTORY := Some (- 1)\<rparr>))"

section \<open>Properties\<close>

subsection \<open>The window\<close>

lemma most_recent_append:
  "most_recent k (most_recent k xs @ ys) = most_recent k (xs @ ys)"
  by (cases "length xs \<le> k") (auto simp: most_recent_def add.commute)

lemma most_recent_all: "length xs \<le> k \<Longrightarrow> most_recent k xs = xs"
  by (simp add: most_recent_def)

lemma length_most_recent: "length (most_recent k xs) = min k (length xs)"
  by (auto simp: most_recent_def)

lemma set_most_recent: "set (most_recent k xs) \<subseteq> set xs"
  by (simp add: most_recent_def set_drop_subset)

lemma last_most_recent: "0 < k \<Longrightarrow> xs \<noteq> [] \<Longrightarrow> last (most_recent k xs) = last xs"
  by (simp add: most_recent_def)

lemma most_recent_Nil_iff: "most_recent k xs = [] \<longleftrightarrow> k = 0 \<or> xs = []"
  by (cases xs) (auto simp: most_recent_def)

subsection \<open>Reading and appending\<close>

lemma getConversationHistory_fst: "fst (getConversationHistory sid s) = history_of s sid"
  by (simp add: history_of_def)

lemma config_getConversationHistory [simp]:
  "config (snd (getConversationHistory sid s)) = config s"
  by (simp add: getConversationHistory_def split: option.splits)

lemma allocated_getConversationHistory [simp]:
  "allocated (snd (getConversationHistory sid s)) = allocated s"
  by (simp add: getConversationHistory_def split: option.splits)

lemma history_of_getConversationHistory [simp]:
  "history_of (snd (getConversationHistory sid s)) sid' = history_of s sid'"
  by (simp add: history_of_def getConversationHistory_def split: option.splits)

lemma getConversationHistory_allocated_update:
  "getConversationHistory sid (s\<lparr>allocated := n\<rparr>) =
     (fst (getConversationHistory sid s), (snd (getConversationHistory sid s))\<lparr>allocated := n\<rparr>)"
  by (simp add: getConversationHistory_def split: option.splits)

lemma history_of_allocated_update [simp]:
  "history_of (s\<lparr>allocated := n\<rparr>) sid = history_of s sid"
  by (simp add: history_of_def getConversationHistory_def split: option.splits)

lemma history_of_in_ran:
  "m \<in> set (history_of s sid) \<Longrightarrow> \<exists>h \<in> ran (conversations s). m \<in> set h"
  by (auto simp: history_of_def getConversationHistory_def ran_def split: option.splits)

lemma history_of_new [simp]: "history_of (new_ChatService cfg) sid = []"
  by (simp add: history_of_def new_ChatService_def getConversationHistory_def)

lemma config_new [simp]: "config (new_ChatService cfg) = cfg"
  by (simp add: new_ChatService_def)

lemma allocated_new [simp]: "allocated (new_ChatService cfg) = 0"
  by (simp add: new_ChatService_def)

lemma config_addToConversation [simp]:
  "config (addToConversation sid m s) = config s"
  by (simp add: addToConversation_def getConversationHistory_def Let_def split: option.splits)

lemma allocated_addToConversation [simp]:
  "allocated (addToConversation sid m s) = allocated s"
  by (simp add: addToConversation_def getConversationHistory_def Let_def split: option.splits)

lemma addToConversation_allocated_update:
  "addToConversation sid m (s\<lparr>allocated := n\<rparr>) = (addToConversation sid m s)\<lparr>allocated := n\<rparr>"
  by (simp add: addToConversation_def getConversationHistory_def Let_def split: option.splits)

lemma addToConversation_after_read [simp]:
  "addToConversation sid m (snd (getConversationHistory sid s)) = addToConversation sid m s"
  by (simp add: addToConversation_def getConversationHistory_def Let_def split: option.splits)

text \<open>
  One append, for any configured maximum, negative ones included: the delete count of the
  splice is clamped, so what remains is the window of \<open>nat H\<close> most recent messages.
\<close>

lemma conversations_addToConversation:
  "conversations (addToConversation sid m s) =
     (conversations s)
       (sid \<mapsto> most_recent (nat (maxHistoryMessages (chat (config s)))) (history_of s sid @ [m]))"
proof -
  let ?h = "history_of s sid @ [m]" and ?H = "maxHistoryMessages (chat (config s))"
  have clamp: "nat (min (max (int (length ?h) - ?H) 0) (int (length ?h))) = length ?h - nat ?H"
    by linarith
  have window: "(if int (length ?h) > ?H then splice_from_start ?h (int (length ?h) - ?H) else ?h)
                  = most_recent (nat ?H) ?h"
    unfolding splice_from_start_def clamp most_recent_def by auto
  have "conversations (addToConversation sid m s) =
          (conversations s)(sid \<mapsto> (if int (length ?h) > ?H
                                       then splice_from_start ?h (int (length ?h) - ?H) else ?h))"
    by (simp add: history_of_def addToConversation_def getConversationHistory_def Let_def
        split: option.splits)
  then show ?thesis by (simp only: window)
qed

lemma history_of_addToConversation:
  "history_of (addToConversation sid m s) sid' =
     (if sid' = sid
      then most_recent (nat (maxHistoryMessages (chat (config s)))) (history_of s sid @ [m])
      else history_of s sid')"
  by (simp add: history_of_def[of "addToConversation sid m s"] getConversationHistory_def
      conversations_addToConversation)
     (simp add: history_of_def getConversationHistory_def split: option.splits)

subsection \<open>Sequences of appends\<close>

lemma appended_to_Cons:
  "appended_to sid ((sid', m) # ops) =
     (if sid' = sid then m # appended_to sid ops else appended_to sid ops)"
  by (simp add: appended_to_def)

lemma config_appends [simp]: "config (appends ops s) = config s"
  by (induction ops s rule: appends.induct) auto

lemma history_of_appends:
  assumes "length (history_of s sid) \<le> nat (maxHistoryMessages (chat (config s)))"
  shows "history_of (appends ops s) sid =
           most_recent (nat (maxHistoryMessages (chat (config s))))
             (history_of s sid @ appended_to sid ops)"
  using assms
proof (induction ops s rule: appends.induct)
  case (1 s)
  then show ?case by (simp add: appended_to_def most_recent_all)
next
  case (2 sid' m rest s)
  let ?s = "addToConversation sid' m s"
  have "length (history_of ?s sid) \<le> nat (maxHistoryMessages (chat (config ?s)))"
    using 2(2) by (simp add: history_of_addToConversation length_most_recent)
  from 2(1)[OF this] show ?case
    by (simp add: history_of_addToConversation appended_to_Cons most_recent_append)
qed

text \<open>
  C1. Start from a new service whose configured maximum is the count \<open>H\<close>, and append any
  sequence of messages, each to any session. Then the history stored for every session has
  at most \<open>H\<close> messages, and it is exactly the most recent \<open>min n H\<close> of the \<open>n\<close> messages
  appended to that session, in the order in which they were appended.
\<close>

theorem history_bound:
  assumes "maxHistoryMessages (chat cfg) = int H"
  shows "length (history_of (appends ops (new_ChatService cfg)) sid) \<le> H
       \<and> history_of (appends ops (new_ChatService cfg)) sid
           = most_recent (min (length (appended_to sid ops)) H) (appended_to sid ops)"
proof -
  have "history_of (appends ops (new_ChatService cfg)) sid = most_recent H (appended_to sid ops)"
    using history_of_appends[of "new_ChatService cfg" sid ops] assms by simp
  then show ?thesis by (auto simp: most_recent_def min_def)
qed

text \<open>
  With a maximum of two, four appends of which three go to session \<open>s1\<close> leave the last two of
  those three.
\<close>

theorem history_bound_witness:
  "maxHistoryMessages (chat (chat_config_js (empty_environment\<lparr>CHAT_MAX_HISTORY := Some 2\<rparr>))) = int 2
   \<and> length (history_of
        (appends [(''s1'', \<lparr>oid = 0, role = ''user'', content = Some ''a''\<rparr>),
                  (''s2'', \<lparr>oid = 1, role = ''user'', content = Some ''b''\<rparr>),
                  (''s1'', \<lparr>oid = 2, role = ''assistant'', content = Some ''c''\<rparr>),
                  (''s1'', \<lparr>oid = 3, role = ''user'', content = Some ''d''\<rparr>)]
           (new_ChatService (chat_config_js (empty_environment\<lparr>CHAT_MAX_HISTORY := Some 2\<rparr>))))
        ''s1'') \<le> 2
   \<and> history_of
        (appends [(''s1'', \<lparr>oid = 0, role = ''user'', content = Some ''a''\<rparr>),
                  (''s2'', \<lparr>oid = 1, role = ''user'', content = Some ''b''\<rparr>),
                  (''s1'', \<lparr>oid = 2, role = ''assistant'', content = Some ''c''\<rparr>),
                  (''s1'', \<lparr>oid = 3, role = ''user'', content = Some ''d''\<rparr>)]
           (new_ChatService (chat_config_js (empty_environment\<lparr>CHAT_MAX_HISTORY := Some 2\<rparr>))))
        ''s1''
      = [\<lparr>oid = 2, role = ''assistant'', content = Some ''c''\<rparr>,
         \<lparr>oid = 3, role = ''user'', content = Some ''d''\<rparr>]"
proof -
  have h: "maxHistoryMessages (chat (chat_config_js (empty_environment\<lparr>CHAT_MAX_HISTORY := Some 2\<rparr>))) = int 2"
    by (simp add: chat_config_js_def empty_environment_def number_or_def)
  show ?thesis
    using h history_bound [OF h,
        of "[(''s1'', \<lparr>oid = 0, role = ''user'', content = Some ''a''\<rparr>),
             (''s2'', \<lparr>oid = 1, role = ''user'', content = Some ''b''\<rparr>),
             (''s1'', \<lparr>oid = 2, role = ''assistant'', content = Some ''c''\<rparr>),
             (''s1'', \<lparr>oid = 3, role = ''user'', content = Some ''d''\<rparr>)]" "''s1''"]
    by (simp add: appended_to_def most_recent_def)
qed

text \<open>
  A configured maximum below zero is outside that statement: every append then leaves the
  history of its session empty.
\<close>

lemma negative_maximum_keeps_nothing:
  "maxHistoryMessages (chat (config s)) < 0 \<Longrightarrow> history_of (addToConversation sid m s) sid = []"
  by (simp add: history_of_addToConversation most_recent_def)

subsection \<open>Building the request\<close>

lemma snd_buildSystemPrompt [simp]:
  "snd (buildSystemPrompt c u s) = s\<lparr>allocated := Suc (allocated s)\<rparr>"
  by (simp add: buildSystemPrompt_def new_object_def Let_def)

lemma oid_buildSystemPrompt [simp]: "oid (fst (buildSystemPrompt c u s)) = allocated s"
  by (simp add: buildSystemPrompt_def new_object_def Let_def)

lemma role_buildSystemPrompt [simp]: "role (fst (buildSystemPrompt c u s)) = ''system''"
  by (simp add: buildSystemPrompt_def new_object_def Let_def)

lemma system_message_not_user [simp]:
  "system_message s opts \<noteq> \<lparr>oid = a, role = ''user'', content = c\<rparr>"
proof
  assume "system_message s opts = \<lparr>oid = a, role = ''user'', content = c\<rparr>"
  then have "role (system_message s opts) = ''user''" by simp
  then show False by (simp add: system_message_def)
qed

lemma messages_createChatRequest:
  "messages (fst (createChatRequest um sid opts s)) =
     (if opt_includeHistory opts = Some False
      then [system_message s opts, user_message s um]
      else system_message s opts # history_of s sid @ [user_message s um])"
  by (cases "opt_includeHistory opts")
     (simp_all add: createChatRequest_def Let_def case_prod_beta new_object_def
        system_message_def user_message_def history_of_def getConversationHistory_allocated_update)

lemma snd_createChatRequest:
  "snd (createChatRequest um sid opts s) =
     (addToConversation sid (user_message s um) s)\<lparr>allocated := Suc (Suc (allocated s))\<rparr>"
  by (cases "opt_includeHistory opts")
     (simp_all add: createChatRequest_def Let_def case_prod_beta new_object_def user_message_def
        getConversationHistory_allocated_update addToConversation_allocated_update)

lemma temperature_createChatRequest:
  "temperature (fst (createChatRequest um sid opts s)) =
     (case opt_temperature opts of None \<Rightarrow> 0.7 | Some t \<Rightarrow> t)"
  by (simp add: createChatRequest_def Let_def case_prod_beta)

lemma max_tokens_createChatRequest:
  "max_tokens (fst (createChatRequest um sid opts s)) =
     (case opt_maxTokens opts of None \<Rightarrow> 500 | Some k \<Rightarrow> k)"
  by (simp add: createChatRequest_def Let_def case_prod_beta)

lemma conversations_createChatRequest:
  "conversations (snd (createChatRequest um sid opts s)) =
     (conversations s)(sid \<mapsto> most_recent (nat (maxHistoryMessages (chat (config s))))
                                (history_of s sid @ [user_message s um]))"
  by (simp add: snd_createChatRequest conversations_addToConversation)

lemma history_of_createChatRequest:
  "history_of (snd (createChatRequest um sid opts s)) sid' =
     (if sid' = sid
      then most_recent (nat (maxHistoryMessages (chat (config s))))
             (history_of s sid @ [user_message s um])
      else history_of s sid')"
  by (simp add: snd_createChatRequest history_of_addToConversation)

lemma config_createChatRequest [simp]: "config (snd (createChatRequest um sid opts s)) = config s"
  by (simp add: snd_createChatRequest)

lemma allocated_createChatRequest [simp]:
  "allocated (snd (createChatRequest um sid opts s)) = Suc (Suc (allocated s))"
  by (simp add: snd_createChatRequest)

subsection \<open>Stored messages are objects created earlier\<close>

lemma heap_ok_history: "heap_ok s \<Longrightarrow> m \<in> set (history_of s sid) \<Longrightarrow> oid m < allocated s"
  using history_of_in_ran[of m s sid] by (auto simp: heap_ok_def)

lemma heap_ok_new: "heap_ok (new_ChatService cfg)"
  by (simp add: heap_ok_def new_ChatService_def)

lemma heap_ok_allocated: "heap_ok s \<Longrightarrow> allocated s \<le> n \<Longrightarrow> heap_ok (s\<lparr>allocated := n\<rparr>)"
  by (fastforce simp: heap_ok_def)

lemma heap_ok_getConversationHistory: "heap_ok s \<Longrightarrow> heap_ok (snd (getConversationHistory sid s))"
  by (auto simp: heap_ok_def getConversationHistory_def ran_def split: option.splits if_splits)

lemma heap_ok_clearConversation: "heap_ok s \<Longrightarrow> heap_ok (clearConversation sid s)"
  by (auto simp: heap_ok_def clearConversation_def ran_def split: if_splits)

lemma heap_ok_addToConversation:
  assumes "heap_ok s" and "oid m < allocated s"
  shows "heap_ok (addToConversation sid m s)"
proof -
  have "\<forall>x \<in> set (most_recent k (history_of s sid @ [m])). oid x < allocated s" for k
    using set_most_recent[of k "history_of s sid @ [m]"] heap_ok_history[OF assms(1)] assms(2)
    by auto
  then show ?thesis
    using assms(1)
    by (auto simp: heap_ok_def conversations_addToConversation ran_def split: if_splits)
qed

lemma heap_ok_createChatRequest:
  assumes "heap_ok s" shows "heap_ok (snd (createChatRequest um sid opts s))"
proof -
  have "heap_ok (s\<lparr>allocated := Suc (Suc (allocated s))\<rparr>)"
    using assms by (simp add: heap_ok_allocated)
  then have "heap_ok (addToConversation sid (user_message s um)
                        (s\<lparr>allocated := Suc (Suc (allocated s))\<rparr>))"
    by (rule heap_ok_addToConversation) (simp add: user_message_def)
  then show ?thesis by (simp add: snd_createChatRequest addToConversation_allocated_update)
qed

subsection \<open>Facts for evaluating concrete calls\<close>

lemma default_service_simps:
  "history_of default_service sid = []"
  "config default_service = chat_config_js empty_environment"
  "allocated default_service = 0"
  "conversations default_service = Map.empty"
  by (simp_all add: default_service_def) (simp add: new_ChatService_def)

lemmas eval_simps =
  default_service_simps chat_config_js_def number_or_def empty_environment_def
  most_recent_def user_message_def trim_def is_white_space_def
  history_of_createChatRequest answering_def completion_reply_def upstream_fails_def
  timed_out_def rejected_with_def no_options_def

subsection \<open>The messages of a request\<close>

lemma count_list_0: "x \<notin> set xs \<Longrightarrow> count_list xs x = 0"
  by (induction xs) auto

text \<open>
  C3. When \<^verbatim>\<open>includeHistory\<close> is not switched off, the messages of the request built by
  \<^const>\<open>createChatRequest\<close> are the system message, then the history stored for the session
  before the call, unchanged, then the new user message with the trimmed text as the last
  element; and the new user message, the object created by this call, occurs exactly once in
  them. The state is one in which every stored message is an object created before the
  call, as it is in every state the service can be in.
\<close>

theorem request_messages:
  assumes "heap_ok s" and "opt_includeHistory opts \<noteq> Some False"
  shows "messages (fst (createChatRequest um sid opts s))
           = system_message s opts # history_of s sid @ [user_message s um]
       \<and> count_list (messages (fst (createChatRequest um sid opts s))) (user_message s um) = 1"
proof -
  have sys: "system_message s opts \<noteq> user_message s um"
    by (simp add: user_message_def)
  have "user_message s um \<notin> set (history_of s sid)"
  proof
    assume "user_message s um \<in> set (history_of s sid)"
    from heap_ok_history[OF assms(1) this] show False by (simp add: user_message_def)
  qed
  then have "count_list (history_of s sid) (user_message s um) = 0" by (rule count_list_0)
  with sys assms(2) show ?thesis by (simp add: messages_createChatRequest)
qed

text \<open>
  The same text sent twice: the second request holds the earlier user message and the new
  one, which are two objects, and the new one once.
\<close>

theorem request_messages_witness:
  "heap_ok (snd (createChatRequest ''hi'' ''s1'' no_options default_service))
   \<and> opt_includeHistory no_options \<noteq> Some False
   \<and> tl (messages (fst (createChatRequest ''hi'' ''s1'' no_options
          (snd (createChatRequest ''hi'' ''s1'' no_options default_service)))))
       = [\<lparr>oid = 1, role = ''user'', content = Some ''hi''\<rparr>,
          \<lparr>oid = 3, role = ''user'', content = Some ''hi''\<rparr>]
   \<and> count_list (messages (fst (createChatRequest ''hi'' ''s1'' no_options
          (snd (createChatRequest ''hi'' ''s1'' no_options default_service)))))
        \<lparr>oid = 3, role = ''user'', content = Some ''hi''\<rparr> = 1"
proof -
  have h1: "heap_ok (snd (createChatRequest ''hi'' ''s1'' no_options default_service))"
    by (simp add: heap_ok_createChatRequest heap_ok_new default_service_def)
  have h2: "opt_includeHistory no_options \<noteq> Some False" by (simp add: no_options_def)
  show ?thesis
    using h1 h2 request_messages [OF h1 h2, of "''hi''" "''s1''"]
    by (simp add: eval_simps)
qed

subsection \<open>Temperature and token budget of a request\<close>

text \<open>
  What \<^const>\<open>createChatRequest\<close> does: the temperature and the token budget of the request
  are the values given in the options and, when the options give none, the literals 0.7 and
  500. The templates of the configuration are not read for them.
\<close>

lemma sampling_parameters:
  "temperature (fst (createChatRequest um sid opts s))
     = (case opt_temperature opts of None \<Rightarrow> 0.7 | Some t \<Rightarrow> t)
   \<and> max_tokens (fst (createChatRequest um sid opts s))
     = (case opt_maxTokens opts of None \<Rightarrow> 500 | Some k \<Rightarrow> k)"
  by (simp add: temperature_createChatRequest max_tokens_createChatRequest)

text \<open>
  C4, evaluated. With the context tag \<^verbatim>\<open>booking\<close> and no override in the options, the
  template that the tag selects holds the temperature 0.6 and 400 tokens, and the request is
  built with 0.7 and 500: it differs from the selected template in both values, where the
  claim says they are equal.
\<close>

theorem template_sampling_not_used:
  "systemPrompts_get (systemPrompts (config default_service)) ''booking''
     = Own (booking (systemPrompts (config default_service)))
   \<and> opt_temperature (no_options\<lparr>opt_context := Some ''booking''\<rparr>) = None
   \<and> opt_maxTokens (no_options\<lparr>opt_context := Some ''booking''\<rparr>) = None
   \<and> temperature (fst (createChatRequest ''hi'' ''s1'' (no_options\<lparr>opt_context := Some ''booking''\<rparr>)
                          default_service))
       \<noteq> tpl_temperature (booking (systemPrompts (config default_service)))
   \<and> max_tokens (fst (createChatRequest ''hi'' ''s1'' (no_options\<lparr>opt_context := Some ''booking''\<rparr>)
                         default_service))
       \<noteq> tpl_maxTokens (booking (systemPrompts (config default_service)))"
  by (simp add: temperature_createChatRequest max_tokens_createChatRequest no_options_def
      systemPrompts_get_def default_service_def chat_config_js_def)

text \<open>
  In the version of the configuration with the RAG endpoint every template holds 16000 tokens;
  a request built without an override still asks for 500.
\<close>

lemma template_budget_not_used:
  "tpl_maxTokens (travel (systemPrompts (config (new_ChatService (chat_config_rag empty_environment)))))
     = 16000
   \<and> max_tokens (fst (createChatRequest ''hi'' ''s1'' no_options
                         (new_ChatService (chat_config_rag empty_environment)))) = 500"
  by (simp add: max_tokens_createChatRequest no_options_def chat_config_rag_def)

subsection \<open>The gateway\<close>

lemma snd_sendChatRequest:
  "snd (sendChatRequest requestPayload s net) =
     net\<lparr>sent := sent net @ [the_post requestPayload s]\<rparr>"
  by (simp add: sendChatRequest_def axios_post_def the_post_def case_prod_beta)

lemma fst_sendChatRequest:
  "fst (sendChatRequest requestPayload s net) =
     (case upstream net (length (sent net)) of
        Resolved r \<Rightarrow> Send_success (data r)
      | Rejected e \<Rightarrow>
          (case err_response e of
             Some r \<Rightarrow>
               Send_failure \<lparr>error = ''API Error: '' @ show_nat (status r) @ '' - '' @ statusText r,
                             details = Some (data r)\<rparr>
           | None \<Rightarrow>
               if err_request e
               then Send_failure \<lparr>error = ''Network error: Unable to reach chat API service'',
                                  details = None\<rparr>
               else Send_failure \<lparr>error = ''Request error: '' @ err_message e, details = None\<rparr>))"
  by (simp add: sendChatRequest_def axios_post_def case_prod_beta)

text \<open>
  C8, as stated, fails: the gateway does not look at the status of a response, only at
  whether the error of a rejected call has a response. A response with the success status
  200 that the client rejects (its body could not be decoded) gives the failure built from a
  response, with the text \<^verbatim>\<open>API Error: 200 - OK\<close>.
\<close>

theorem success_status_gives_api_error:
  "fst (sendChatRequest (fst (createChatRequest ''hi'' ''s1'' no_options default_service))
         default_service (answering (rejected_with 200 ''OK'')))
     = Send_failure \<lparr>error = ''API Error: 200 - OK'', details = Some Null_body\<rparr>
   \<and> failure_kind \<lparr>error = ''API Error: 200 - OK'', details = Some Null_body\<rparr>
       = UpstreamProtocolError"
  by (simp add: fst_sendChatRequest answering_def rejected_with_def failure_kind_def
      show_nat.simps digit_char_def)

text \<open>
  C8, as the code has it. \<^const>\<open>sendChatRequest\<close> issues exactly one POST, whatever its
  outcome. Its result is a failure of the protocol kind exactly when the client rejected the
  call with a response, and then it carries the status, the status text and the body of that
  response, whatever the status is; it is a failure of the transport kind exactly when the
  client rejected the call without a response; and a call that the client resolved gives a
  success with the body of the response.
\<close>

theorem gateway_classification:
  "sent (snd (sendChatRequest requestPayload s net)) = sent net @ [the_post requestPayload s]
   \<and> ((\<exists>f. fst (sendChatRequest requestPayload s net) = Send_failure f
            \<and> failure_kind f = UpstreamProtocolError)
        \<longleftrightarrow> (\<exists>e r. upstream net (length (sent net)) = Rejected e \<and> err_response e = Some r))
   \<and> ((\<exists>f. fst (sendChatRequest requestPayload s net) = Send_failure f
            \<and> failure_kind f = TransportError)
        \<longleftrightarrow> (\<exists>e. upstream net (length (sent net)) = Rejected e \<and> err_response e = None))
   \<and> (\<forall>e r. upstream net (length (sent net)) = Rejected e \<and> err_response e = Some r
          \<longrightarrow> fst (sendChatRequest requestPayload s net)
                = Send_failure \<lparr>error = ''API Error: '' @ show_nat (status r) @ '' - '' @ statusText r,
                                 details = Some (data r)\<rparr>)
   \<and> (\<forall>r. upstream net (length (sent net)) = Resolved r
          \<longrightarrow> fst (sendChatRequest requestPayload s net) = Send_success (data r))"
proof (cases "upstream net (length (sent net))")
  case (Resolved r)
  then show ?thesis by (simp add: snd_sendChatRequest fst_sendChatRequest)
next
  case (Rejected e)
  then show ?thesis
    by (cases "err_response e")
       (simp_all add: snd_sendChatRequest fst_sendChatRequest failure_kind_def)
qed

text \<open>A call rejected with a response of status 500: one POST, and a failure of the protocol kind.\<close>

theorem gateway_classification_witness:
  "fst (sendChatRequest (fst (createChatRequest ''hi'' ''s1'' no_options default_service))
         default_service (answering (rejected_with 500 ''Internal Server Error'')))
     = Send_failure \<lparr>error = ''API Error: 500 - Internal Server Error'', details = Some Null_body\<rparr>
   \<and> failure_kind \<lparr>error = ''API Error: 500 - Internal Server Error'', details = Some Null_body\<rparr>
       = UpstreamProtocolError
   \<and> length (sent (snd (sendChatRequest (fst (createChatRequest ''hi'' ''s1'' no_options default_service))
         default_service (answering (rejected_with 500 ''Internal Server Error''))))) = 1"
  using gateway_classification [of "fst (createChatRequest ''hi'' ''s1'' no_options default_service)"
      default_service "answering (rejected_with 500 ''Internal Server Error'')"]
  by (simp add: answering_def rejected_with_def failure_kind_def show_nat.simps digit_char_def
      fst_sendChatRequest snd_sendChatRequest)

text \<open>
  C5, evaluated. The timeout of the POST is 30000 while the configuration holds another
  value: 120000 by default in the configuration with the RAG endpoint, and 60000 when
  \<^verbatim>\<open>CHAT_API_TIMEOUT\<close> is set to it.
\<close>

theorem timeout_is_fixed:
  "post_timeout (last (sent (snd (sendChatRequest requestPayload
       (new_ChatService (chat_config_rag empty_environment)) net)))) = 30000
   \<and> api_timeout (api (config (new_ChatService (chat_config_rag empty_environment)))) = 120000
   \<and> post_timeout (last (sent (snd (sendChatRequest requestPayload
       (new_ChatService (chat_config_js (empty_environment\<lparr>CHAT_API_TIMEOUT := Some 60000\<rparr>))) net)))) = 30000
   \<and> api_timeout (api (config (new_ChatService
          (chat_config_js (empty_environment\<lparr>CHAT_API_TIMEOUT := Some 60000\<rparr>))))) = 60000"
  by (simp add: snd_sendChatRequest the_post_def chat_config_rag_def chat_config_js_def
      empty_environment_def number_or_def)

lemma post_timeout_sendChatRequest:
  "post_timeout (last (sent (snd (sendChatRequest requestPayload s net)))) = 30000"
  by (simp add: snd_sendChatRequest the_post_def)

subsection \<open>Processing a message\<close>

lemma trim_Nil [simp]: "trim [] = []"
  by (simp add: trim_def)

lemma trim_white_space:
  assumes "\<forall>c \<in> set sid. is_white_space c" shows "trim sid = []"
  using assms by (auto simp: trim_def dest: set_dropWhileD)

lemma valid_message_Some [simp]: "valid_message (Some um) = (trim um \<noteq> [])"
  by (simp add: valid_message_def)

lemma processMessage_invalid:
  assumes "\<not> valid_message userMessage \<or> \<not> truthy sessionId"
  shows "processMessage userMessage sessionId opts (s, net) =
           (Failed \<lparr>error = (if valid_message userMessage then ''Session ID is required''
                              else ''Message cannot be empty''),
                    details = None\<rparr>, s, net)"
  using assms
  by (cases userMessage) (auto simp: processMessage_def valid_message_def truthy_def)

lemma processMessage_valid:
  assumes "trim um \<noteq> []" and "sid \<noteq> []"
  shows "processMessage (Some um) (Some sid) opts (s, net) =
     (let requestPayload = fst (createChatRequest um sid opts s);
          s1 = snd (createChatRequest um sid opts s);
          net1 = net\<lparr>sent := sent net @ [the_post requestPayload s1]\<rparr>
      in case fst (sendChatRequest requestPayload s1 net) of
           Send_failure f \<Rightarrow> (Failed f, s1, net1)
         | Send_success Null_body \<Rightarrow>
             (Failed \<lparr>error = ''Failed to process chat message'', details = None\<rparr>, s1, net1)
         | Send_success (Body c) \<Rightarrow>
             (case choices_0_message c of
                None \<Rightarrow> (Failed \<lparr>error = ''Invalid response format from chat API'',
                                 details = None\<rparr>, s1, net1)
              | Some m \<Rightarrow>
                  (Succeeded \<lparr>res_message = wire_content m, res_usage = usage c,
                              res_model = completion_model c,
                              conversationLength =
                                length (history_of
                                  (addToConversation sid
                                     \<lparr>oid = allocated s1, role = wire_role m, content = wire_content m\<rparr>
                                     s1) sid)\<rparr>,
                   (addToConversation sid
                      \<lparr>oid = allocated s1, role = wire_role m, content = wire_content m\<rparr>
                      s1)\<lparr>allocated := Suc (allocated s1)\<rparr>,
                   net1)))"
proof -
  have key: "\<And>m s1. snd (getConversationHistory sid (addToConversation sid m s1))
                      = addToConversation sid m s1"
    by (simp add: getConversationHistory_def conversations_addToConversation)
  have um: "um \<noteq> []" "trim um \<noteq> []"
    using assms by auto
  show ?thesis
    using um assms(2)
    by (simp add: processMessage_def truthy_def Let_def case_prod_beta
        snd_sendChatRequest new_object_def addToConversation_allocated_update
        getConversationHistory_allocated_update key history_of_def
        split: send_result.splits body.splits option.splits)
qed

text \<open>After validation, the turn fails exactly on the outcomes of \<^const>\<open>upstream_fails\<close>.\<close>

lemma processMessage_fails:
  assumes "trim um \<noteq> []" and "sid \<noteq> []"
    and "upstream_fails (upstream net (length (sent net)))"
  shows "\<exists>f. processMessage (Some um) (Some sid) opts (s, net) =
           (Failed f, snd (createChatRequest um sid opts s),
            net\<lparr>sent := sent net @ [the_post (fst (createChatRequest um sid opts s))
                                       (snd (createChatRequest um sid opts s))]\<rparr>)"
  using assms(3)
  by (auto simp: processMessage_valid[OF assms(1,2)] fst_sendChatRequest upstream_fails_def Let_def
      split: axios_outcome.splits body.splits option.splits if_splits)

lemma processMessage_succeeds:
  assumes "trim um \<noteq> []" and "sid \<noteq> []"
    and "\<not> upstream_fails (upstream net (length (sent net)))"
  shows "\<exists>r. fst (processMessage (Some um) (Some sid) opts (s, net)) = Succeeded r"
  using assms(3)
  by (auto simp: processMessage_valid[OF assms(1,2)] fst_sendChatRequest upstream_fails_def Let_def
      split: axios_outcome.splits body.splits if_splits option.splits)

lemma processMessage_valid_cases:
  assumes "trim um \<noteq> []" and "sid \<noteq> []"
  shows "(\<exists>f. processMessage (Some um) (Some sid) opts (s, net) =
             (Failed f, snd (createChatRequest um sid opts s),
              net\<lparr>sent := sent net @ [the_post (fst (createChatRequest um sid opts s))
                                         (snd (createChatRequest um sid opts s))]\<rparr>)
             \<and> error f \<noteq> ''Session ID is required'')
       \<or> (\<exists>r a. processMessage (Some um) (Some sid) opts (s, net) =
             (Succeeded r,
              (addToConversation sid a (snd (createChatRequest um sid opts s)))
                \<lparr>allocated := Suc (Suc (Suc (allocated s)))\<rparr>,
              net\<lparr>sent := sent net @ [the_post (fst (createChatRequest um sid opts s))
                                         (snd (createChatRequest um sid opts s))]\<rparr>)
             \<and> oid a = Suc (Suc (allocated s))
             \<and> reply_role (upstream net (length (sent net))) = Some (role a))"
  by (cases "upstream net (length (sent net))")
     (auto simp: processMessage_valid[OF assms] fst_sendChatRequest Let_def reply_role_def
        split: body.splits option.splits)

text \<open>
  C6. When the user message is absent, empty or only white space, or the session id is absent
  or empty, \<^const>\<open>processMessage\<close> returns the validation failure (the one about the message
  when both are at fault), issues no POST, and leaves the service exactly as it was, so every
  history read afterwards is what it was before.
\<close>

theorem validation_failure:
  assumes "userMessage = None \<or> trim (the userMessage) = [] \<or> sessionId = None \<or> sessionId = Some []"
  shows "processMessage userMessage sessionId opts (s, net) =
           (Failed \<lparr>error = (if userMessage = None \<or> trim (the userMessage) = []
                              then ''Message cannot be empty'' else ''Session ID is required''),
                    details = None\<rparr>, s, net)"
proof -
  have "\<not> valid_message userMessage \<or> \<not> truthy sessionId"
    using assms by (auto simp: valid_message_def truthy_def)
  from processMessage_invalid[OF this] show ?thesis
    by (simp add: valid_message_def)
qed

text \<open>The empty message on a new service: the failure, no POST, and an empty history.\<close>

theorem validation_failure_witness:
  "trim (the (Some '''')) = []
   \<and> fst (processMessage (Some '''') (Some ''s1'') no_options
            (default_service, answering (completion_reply ''assistant'' ''hello'')))
       = Failed \<lparr>error = ''Message cannot be empty'', details = None\<rparr>
   \<and> sent (snd (snd (processMessage (Some '''') (Some ''s1'') no_options
            (default_service, answering (completion_reply ''assistant'' ''hello''))))) = []
   \<and> fst (getConversationHistory ''s1''
        (fst (snd (processMessage (Some '''') (Some ''s1'') no_options
            (default_service, answering (completion_reply ''assistant'' ''hello'')))))) = []"
proof -
  have h: "Some '''' = None \<or> trim (the (Some '''')) = [] \<or> Some ''s1'' = None \<or> Some ''s1'' = Some []"
    by simp
  show ?thesis
    using validation_failure [OF h, of no_options default_service
        "answering (completion_reply ''assistant'' ''hello'')"]
    by (simp add: answering_def default_service_def getConversationHistory_def new_ChatService_def)
qed

text \<open>
  Both versions of the configuration give a positive maximum unless \<^verbatim>\<open>CHAT_MAX_HISTORY\<close>
  is set to a negative number: zero and \<^verbatim>\<open>NaN\<close> are replaced by 20.
\<close>

lemma configured_maximum_positive:
  assumes "CHAT_MAX_HISTORY env = None \<or> 0 \<le> the (CHAT_MAX_HISTORY env)"
  shows "0 < maxHistoryMessages (chat (chat_config_js env))"
    and "0 < maxHistoryMessages (chat (chat_config_rag env))"
  using assms
  by (auto simp: chat_config_js_def chat_config_rag_def number_or_def split: option.splits)

text \<open>
  C2, as stated, fails: the window is applied to the user turn as to every append, and the
  configured maximum may be negative. With \<^verbatim>\<open>CHAT_MAX_HISTORY=-1\<close>, which the configuration
  keeps, a valid message whose call times out leaves the history of the session empty: the
  user message is not its most recent entry.
\<close>

theorem user_turn_dropped_by_negative_maximum:
  "maxHistoryMessages (chat (config negative_window_service)) = - 1
   \<and> fst (processMessage (Some ''hi'') (Some ''s1'') no_options
            (negative_window_service, answering timed_out))
       = Failed \<lparr>error = ''Network error: Unable to reach chat API service'', details = None\<rparr>
   \<and> fst (getConversationHistory ''s1''
        (fst (snd (processMessage (Some ''hi'') (Some ''s1'') no_options
            (negative_window_service, answering timed_out))))) = []"
proof -
  have v: "trim ''hi'' \<noteq> []" by (simp add: trim_def is_white_space_def)
  have n: "''s1'' \<noteq> []" by simp
  have c: "config negative_window_service
             = chat_config_js (empty_environment\<lparr>CHAT_MAX_HISTORY := Some (- 1)\<rparr>)"
    "history_of negative_window_service sid = []" for sid
    by (simp_all add: negative_window_service_def)
  show ?thesis
    by (simp add: processMessage_valid[OF v n] fst_sendChatRequest Let_def
        getConversationHistory_fst history_of_createChatRequest c chat_config_js_def
        number_or_def empty_environment_def answering_def timed_out_def most_recent_def)
qed

text \<open>
  C2, as the code has it. Let the configured maximum be positive, and let a call of
  \<^const>\<open>processMessage\<close> pass validation and meet an outcome that fails: the call is
  rejected, without a response or with one, or it is resolved without an assistant message.
  Then the call returns a failure, the history of the session afterwards is the window over
  the earlier history followed by the user message alone, so no assistant message was
  appended, and its most recent entry is the user message with the trimmed text.
\<close>

theorem user_turn_kept_when_upstream_fails:
  assumes "trim um \<noteq> []" and "sid \<noteq> []"
    and "0 < maxHistoryMessages (chat (config s))"
    and "upstream_fails (upstream net (length (sent net)))"
  shows "(\<exists>f. fst (processMessage (Some um) (Some sid) opts (s, net)) = Failed f)
       \<and> history_of (fst (snd (processMessage (Some um) (Some sid) opts (s, net)))) sid
           = most_recent (nat (maxHistoryMessages (chat (config s))))
               (history_of s sid @ [user_message s um])
       \<and> history_of (fst (snd (processMessage (Some um) (Some sid) opts (s, net)))) sid \<noteq> []
       \<and> last (history_of (fst (snd (processMessage (Some um) (Some sid) opts (s, net)))) sid)
           = user_message s um"
proof -
  obtain f where p: "processMessage (Some um) (Some sid) opts (s, net) =
           (Failed f, snd (createChatRequest um sid opts s),
            net\<lparr>sent := sent net @ [the_post (fst (createChatRequest um sid opts s))
                                       (snd (createChatRequest um sid opts s))]\<rparr>)"
    using processMessage_fails[OF assms(1,2,4)] by blast
  have k: "0 < nat (maxHistoryMessages (chat (config s)))" using assms(3) by simp
  show ?thesis
    unfolding p using k
    by (simp add: history_of_createChatRequest most_recent_Nil_iff last_most_recent)
qed

text \<open>A timeout on the first message of a session: the history is the user message alone.\<close>

theorem user_turn_kept_when_upstream_fails_witness:
  "trim '' hi '' \<noteq> [] \<and> ''s1'' \<noteq> []
   \<and> 0 < maxHistoryMessages (chat (config default_service))
   \<and> upstream_fails (upstream (answering timed_out)
         (length (sent (answering timed_out))))
   \<and> history_of (fst (snd (processMessage (Some '' hi '') (Some ''s1'') no_options
          (default_service, answering timed_out)))) ''s1''
       = [\<lparr>oid = 1, role = ''user'', content = Some ''hi''\<rparr>]"
proof -
  have h1: "trim '' hi '' \<noteq> []" by (simp add: trim_def is_white_space_def)
  have h2: "''s1'' \<noteq> []" by simp
  have h3: "0 < maxHistoryMessages (chat (config default_service))" by (simp add: eval_simps)
  have h4: "upstream_fails (upstream (answering timed_out)
         (length (sent (answering timed_out))))"
    by (simp add: eval_simps)
  show ?thesis
    using h1 h2 h3 h4
      user_turn_kept_when_upstream_fails [OF h1 h2 h3 h4, of no_options]
    by (simp add: eval_simps)
qed

text \<open>
  C10. Let the session id be a non-empty string of white space only, and the user message be
  valid. Then \<^const>\<open>processMessage\<close> does not return the failure about the session id; the
  store afterwards holds, under that very string as key, the window over the earlier history of
  that key followed by the user message and at most one further message (the reply); every
  other key is as it was; and the same string given as the user message is rejected, since
  only the message is trimmed.
\<close>

theorem whitespace_session_id_accepted:
  assumes "sid \<noteq> []" and "\<forall>c \<in> set sid. is_white_space c" and "trim um \<noteq> []"
  shows "(\<forall>f. fst (processMessage (Some um) (Some sid) opts (s, net)) = Failed f
              \<longrightarrow> error f \<noteq> ''Session ID is required'')
       \<and> (\<exists>rest. length rest \<le> 1
             \<and> conversations (fst (snd (processMessage (Some um) (Some sid) opts (s, net)))) sid
                 = Some (most_recent (nat (maxHistoryMessages (chat (config s))))
                           (history_of s sid @ user_message s um # rest)))
       \<and> (\<forall>sid'. sid' \<noteq> sid
              \<longrightarrow> conversations (fst (snd (processMessage (Some um) (Some sid) opts (s, net)))) sid'
                    = conversations s sid')
       \<and> fst (processMessage (Some sid) (Some sid) opts (s, net))
           = Failed \<lparr>error = ''Message cannot be empty'', details = None\<rparr>"
proof -
  let ?H = "nat (maxHistoryMessages (chat (config s)))"
  let ?s1 = "snd (createChatRequest um sid opts s)"
  have h1: "history_of ?s1 sid = most_recent ?H (history_of s sid @ [user_message s um])"
    by (simp add: history_of_createChatRequest)
  have rejected: "fst (processMessage (Some sid) (Some sid) opts (s, net))
           = Failed \<lparr>error = ''Message cannot be empty'', details = None\<rparr>"
    using trim_white_space[OF assms(2)] by (simp add: processMessage_invalid)
  from processMessage_valid_cases[OF assms(3,1), of opts s net]
  show ?thesis
  proof (elim disjE exE conjE)
    fix f
    assume p: "processMessage (Some um) (Some sid) opts (s, net) =
             (Failed f, ?s1,
              net\<lparr>sent := sent net @ [the_post (fst (createChatRequest um sid opts s)) ?s1]\<rparr>)"
      and e: "error f \<noteq> ''Session ID is required''"
    have "length ([]::message list) \<le> 1
        \<and> conversations ?s1 sid = Some (most_recent ?H (history_of s sid @ user_message s um # []))"
      by (simp add: conversations_createChatRequest)
    then have "\<exists>rest. length rest \<le> 1
        \<and> conversations ?s1 sid = Some (most_recent ?H (history_of s sid @ user_message s um # rest))"
      by blast
    then show ?thesis
      unfolding p using e rejected by (simp add: conversations_createChatRequest)
  next
    fix r a
    assume p: "processMessage (Some um) (Some sid) opts (s, net) =
             (Succeeded r, (addToConversation sid a ?s1)\<lparr>allocated := Suc (Suc (Suc (allocated s)))\<rparr>,
              net\<lparr>sent := sent net @ [the_post (fst (createChatRequest um sid opts s)) ?s1]\<rparr>)"
    have "length [a] \<le> 1
        \<and> conversations (addToConversation sid a ?s1) sid
            = Some (most_recent ?H (history_of s sid @ user_message s um # [a]))"
      using most_recent_append[of ?H "history_of s sid @ [user_message s um]" "[a]"]
      by (simp add: conversations_addToConversation h1)
    then have "\<exists>rest. length rest \<le> 1
        \<and> conversations (addToConversation sid a ?s1) sid
            = Some (most_recent ?H (history_of s sid @ user_message s um # rest))"
      by blast
    then show ?thesis
      unfolding p using rejected
      by (simp add: conversations_addToConversation conversations_createChatRequest)
  qed
qed

text \<open>
  The session id of one space on a new service: the turn and the reply are stored under it,
  nothing is stored under the empty key, and one space as the message is rejected.
\<close>

theorem whitespace_session_id_accepted_witness:
  "'' '' \<noteq> [] \<and> is_white_space (CHR '' '') \<and> trim ''hi'' \<noteq> []
   \<and> conversations (fst (snd (processMessage (Some ''hi'') (Some '' '') no_options
         (default_service, answering (completion_reply ''assistant'' ''hello''))))) '' ''
       = Some [\<lparr>oid = 1, role = ''user'', content = Some ''hi''\<rparr>,
               \<lparr>oid = 2, role = ''assistant'', content = Some ''hello''\<rparr>]
   \<and> conversations (fst (snd (processMessage (Some ''hi'') (Some '' '') no_options
         (default_service, answering (completion_reply ''assistant'' ''hello''))))) ''''
       = None
   \<and> fst (processMessage (Some '' '') (Some '' '') no_options
         (default_service, answering (completion_reply ''assistant'' ''hello'')))
       = Failed \<lparr>error = ''Message cannot be empty'', details = None\<rparr>"
proof -
  have h1: "'' '' \<noteq> []" by simp
  have h2: "\<forall>c \<in> set '' ''. is_white_space c" by (simp add: is_white_space_def)
  have h3: "trim ''hi'' \<noteq> []" by (simp add: trim_def is_white_space_def)
  show ?thesis
    using h1 h2 h3
      whitespace_session_id_accepted [OF h1 h2 h3, of no_options default_service
        "answering (completion_reply ''assistant'' ''hello'')"]
    by (simp add: processMessage_valid[OF h3 h1] fst_sendChatRequest Let_def
        conversations_addToConversation conversations_createChatRequest
        history_of_createChatRequest eval_simps)
qed

subsection \<open>Sequences of operations\<close>

lemma upstream_processMessage [simp]:
  "upstream (snd (snd (processMessage userMessage sessionId opts (s, net)))) = upstream net"
  by (simp add: processMessage_def Let_def case_prod_beta snd_sendChatRequest
      split: send_result.splits body.splits option.splits)

lemma upstream_run [simp]: "upstream (snd (run ops w)) = upstream (snd w)"
proof (induction ops arbitrary: w)
  case Nil
  then show ?case by simp
next
  case (Cons x xs)
  show ?case
    by (cases x; cases w) (simp_all add: Cons)
qed

lemma valid_or_invalid:
  obtains "\<not> valid_message userMessage \<or> \<not> truthy sessionId"
  | um sid where "userMessage = Some um" "sessionId = Some sid" "trim um \<noteq> []" "sid \<noteq> []"
  by (cases userMessage; cases sessionId) (auto simp: valid_message_def truthy_def)

lemma heap_ok_processMessage:
  assumes "heap_ok s"
  shows "heap_ok (fst (snd (processMessage userMessage sessionId opts (s, net))))"
proof (cases userMessage sessionId rule: valid_or_invalid)
  case 1
  then show ?thesis using assms by (simp add: processMessage_invalid)
next
  case (2 um sid)
  let ?s1 = "snd (createChatRequest um sid opts s)"
  have s1: "heap_ok ?s1" using assms by (rule heap_ok_createChatRequest)
  from processMessage_valid_cases[OF 2(3,4), of opts s net] show ?thesis
  proof (elim disjE exE conjE)
    fix f
    assume "processMessage (Some um) (Some sid) opts (s, net) =
             (Failed f, ?s1,
              net\<lparr>sent := sent net @ [the_post (fst (createChatRequest um sid opts s)) ?s1]\<rparr>)"
    then show ?thesis using s1 2(1,2) by simp
  next
    fix r a
    assume p: "processMessage (Some um) (Some sid) opts (s, net) =
             (Succeeded r, (addToConversation sid a ?s1)\<lparr>allocated := Suc (Suc (Suc (allocated s)))\<rparr>,
              net\<lparr>sent := sent net @ [the_post (fst (createChatRequest um sid opts s)) ?s1]\<rparr>)"
      and a: "oid a = Suc (Suc (allocated s))"
    have "heap_ok (?s1\<lparr>allocated := Suc (Suc (Suc (allocated s)))\<rparr>)"
      using s1 by (simp add: heap_ok_allocated)
    then have "heap_ok (addToConversation sid a (?s1\<lparr>allocated := Suc (Suc (Suc (allocated s)))\<rparr>))"
      by (rule heap_ok_addToConversation) (simp add: a)
    then show ?thesis using 2(1,2) by (simp add: p addToConversation_allocated_update)
  qed
qed

text \<open>Every state that a sequence of operations reaches from a new service is of that kind.\<close>

lemma heap_ok_run: "heap_ok (fst w) \<Longrightarrow> heap_ok (fst (run ops w))"
proof (induction ops arbitrary: w)
  case Nil
  then show ?case by simp
next
  case (Cons x xs)
  obtain s net where w: "w = (s, net)" by (cases w)
  have "heap_ok (fst (perform x w))"
    using Cons.prems
    by (cases x)
       (simp_all add: w heap_ok_processMessage heap_ok_clearConversation
          heap_ok_getConversationHistory)
  then show ?case using Cons.IH by simp
qed

subsection \<open>Roles in the stored history\<close>

lemma no_system_role_history:
  "no_system_role s \<Longrightarrow> m \<in> set (history_of s sid) \<Longrightarrow> role m \<noteq> ''system''"
  using history_of_in_ran[of m s sid] by (auto simp: no_system_role_def)

lemma no_system_role_new: "no_system_role (new_ChatService cfg)"
  by (simp add: no_system_role_def new_ChatService_def)

lemma no_system_role_allocated [simp]: "no_system_role (s\<lparr>allocated := n\<rparr>) = no_system_role s"
  by (simp add: no_system_role_def)

lemma no_system_role_getConversationHistory:
  "no_system_role s \<Longrightarrow> no_system_role (snd (getConversationHistory sid s))"
  by (auto simp: no_system_role_def getConversationHistory_def ran_def split: option.splits if_splits)

lemma no_system_role_clearConversation:
  "no_system_role s \<Longrightarrow> no_system_role (clearConversation sid s)"
  by (auto simp: no_system_role_def clearConversation_def ran_def split: if_splits)

lemma no_system_role_addToConversation:
  assumes "no_system_role s" and "role m \<noteq> ''system''"
  shows "no_system_role (addToConversation sid m s)"
proof -
  have "\<forall>x \<in> set (most_recent k (history_of s sid @ [m])). role x \<noteq> ''system''" for k
    using set_most_recent[of k "history_of s sid @ [m]"] no_system_role_history[OF assms(1)] assms(2)
    by auto
  then show ?thesis
    using assms(1)
    by (auto simp: no_system_role_def conversations_addToConversation ran_def split: if_splits)
qed

lemma no_system_role_createChatRequest:
  assumes "no_system_role s" shows "no_system_role (snd (createChatRequest um sid opts s))"
  using no_system_role_addToConversation[OF assms, of "user_message s um" sid]
  by (simp add: snd_createChatRequest user_message_def)

lemma no_system_role_processMessage:
  assumes "no_system_role s" and "reply_role (upstream net (length (sent net))) \<noteq> Some ''system''"
  shows "no_system_role (fst (snd (processMessage userMessage sessionId opts (s, net))))"
proof (cases userMessage sessionId rule: valid_or_invalid)
  case 1
  then show ?thesis using assms(1) by (simp add: processMessage_invalid)
next
  case (2 um sid)
  let ?s1 = "snd (createChatRequest um sid opts s)"
  have s1: "no_system_role ?s1" using assms(1) by (rule no_system_role_createChatRequest)
  from processMessage_valid_cases[OF 2(3,4), of opts s net] show ?thesis
  proof (elim disjE exE conjE)
    fix f
    assume "processMessage (Some um) (Some sid) opts (s, net) =
             (Failed f, ?s1,
              net\<lparr>sent := sent net @ [the_post (fst (createChatRequest um sid opts s)) ?s1]\<rparr>)"
    then show ?thesis using s1 2(1,2) by simp
  next
    fix r a
    assume p: "processMessage (Some um) (Some sid) opts (s, net) =
             (Succeeded r, (addToConversation sid a ?s1)\<lparr>allocated := Suc (Suc (Suc (allocated s)))\<rparr>,
              net\<lparr>sent := sent net @ [the_post (fst (createChatRequest um sid opts s)) ?s1]\<rparr>)"
      and a: "reply_role (upstream net (length (sent net))) = Some (role a)"
    have "role a \<noteq> ''system''" using assms(2) a by auto
    with s1 have "no_system_role (addToConversation sid a ?s1)"
      by (rule no_system_role_addToConversation)
    then show ?thesis using 2(1,2) by (simp add: p)
  qed
qed

lemma no_system_role_run:
  assumes "\<forall>k. reply_role (upstream (snd w) k) \<noteq> Some ''system''" and "no_system_role (fst w)"
  shows "no_system_role (fst (run ops w))"
  using assms
proof (induction ops arbitrary: w)
  case Nil
  then show ?case by simp
next
  case (Cons x xs)
  obtain s net where w: "w = (s, net)" by (cases w)
  have "no_system_role (fst (perform x w))"
    using Cons.prems
    by (cases x)
       (simp_all add: w no_system_role_processMessage no_system_role_clearConversation
          no_system_role_getConversationHistory)
  moreover have "\<forall>k. reply_role (upstream (snd (perform x w)) k) \<noteq> Some ''system''"
    using Cons.prems(1) by (cases x) (simp_all add: w)
  ultimately show ?case using Cons.IH by simp
qed

text \<open>
  C7, as stated, fails: the message of the reply is stored as it arrives, whatever its role.
  One turn against an upstream whose reply has the role \<^verbatim>\<open>system\<close> leaves that message in
  the history that \<^const>\<open>getConversationHistory\<close> returns.
\<close>

theorem stored_system_message_from_upstream:
  "fst (getConversationHistory ''s1''
     (fst (run [ProcessMessage (Some ''hi'') (Some ''s1'') no_options]
             (default_service, answering (completion_reply ''system'' ''x'')))))
   = [\<lparr>oid = 1, role = ''user'', content = Some ''hi''\<rparr>,
      \<lparr>oid = 2, role = ''system'', content = Some ''x''\<rparr>]"
proof -
  have v: "trim ''hi'' \<noteq> []" by (simp add: trim_def is_white_space_def)
  have n: "''s1'' \<noteq> []" by simp
  show ?thesis
    by (simp add: processMessage_valid[OF v n] fst_sendChatRequest Let_def
        getConversationHistory_fst history_of_addToConversation eval_simps)
qed

text \<open>
  C7, as the code has it. When no reply of the upstream carries the role \<^verbatim>\<open>system\<close>, then
  after every sequence of \<^const>\<open>processMessage\<close>, \<^const>\<open>clearConversation\<close> and
  \<^const>\<open>getConversationHistory\<close> calls on a new service, no message in the history of any
  session has the role \<^verbatim>\<open>system\<close>; in particular the system message built for a request is
  never stored.
\<close>

theorem no_system_message_from_honest_upstream:
  assumes "\<forall>k. reply_role (upstream net k) \<noteq> Some ''system''"
  shows "\<forall>m \<in> set (history_of (fst (run ops (new_ChatService cfg, net))) sid). role m \<noteq> ''system''"
  using no_system_role_run[of "(new_ChatService cfg, net)" ops] assms no_system_role_new
    no_system_role_history
  by auto

text \<open>
  Two turns with a maximum of two and the replies \<^verbatim>\<open>hello\<close> and \<^verbatim>\<open>goodbye\<close>: no stored role
  is \<^verbatim>\<open>system\<close>.
\<close>

theorem no_system_message_from_honest_upstream_witness:
  "reply_role (completion_reply ''assistant'' ''hello'') \<noteq> Some ''system''
   \<and> reply_role (completion_reply ''assistant'' ''goodbye'') \<noteq> Some ''system''
   \<and> ''system'' \<notin> set (map role (history_of
         (fst (run [ProcessMessage (Some ''hi'') (Some ''s1'') no_options,
                    ProcessMessage (Some ''bye'') (Some ''s1'') no_options]
                 (new_ChatService (chat_config_js (empty_environment\<lparr>CHAT_MAX_HISTORY := Some 2\<rparr>)),
                  answering_in_turn [completion_reply ''assistant'' ''hello'']
                    (completion_reply ''assistant'' ''goodbye''))))
         ''s1''))"
proof -
  have h: "\<forall>k. reply_role (upstream (answering_in_turn [completion_reply ''assistant'' ''hello'']
                    (completion_reply ''assistant'' ''goodbye'')) k) \<noteq> Some ''system''"
    by (simp add: answering_in_turn_def reply_role_def completion_reply_def)
  show ?thesis
    using no_system_message_from_honest_upstream [OF h,
        of "[ProcessMessage (Some ''hi'') (Some ''s1'') no_options,
             ProcessMessage (Some ''bye'') (Some ''s1'') no_options]"
           "chat_config_js (empty_environment\<lparr>CHAT_MAX_HISTORY := Some 2\<rparr>)" "''s1''"]
    by (auto simp: reply_role_def completion_reply_def)
qed

text \<open>
  The same two turns in full: the window of two holds the second turn, and the second request
  was built from the first turn, before the window was applied.
\<close>

lemma scenario_window_of_two:
  "history_of
     (fst (run [ProcessMessage (Some ''hi'') (Some ''s1'') no_options,
                ProcessMessage (Some ''bye'') (Some ''s1'') no_options]
             (new_ChatService (chat_config_js (empty_environment\<lparr>CHAT_MAX_HISTORY := Some 2\<rparr>)),
              answering_in_turn [completion_reply ''assistant'' ''hello'']
                (completion_reply ''assistant'' ''goodbye''))))
     ''s1''
   = [\<lparr>oid = 4, role = ''user'', content = Some ''bye''\<rparr>,
      \<lparr>oid = 5, role = ''assistant'', content = Some ''goodbye''\<rparr>]"
proof -
  have v: "trim ''hi'' \<noteq> []" "trim ''bye'' \<noteq> []" by (simp_all add: trim_def is_white_space_def)
  have n: "''s1'' \<noteq> []" by simp
  show ?thesis
    by (simp add: processMessage_valid[OF v(1) n] processMessage_valid[OF v(2) n]
        fst_sendChatRequest Let_def history_of_addToConversation history_of_createChatRequest
        chat_config_js_def number_or_def empty_environment_def
        answering_in_turn_def completion_reply_def
        most_recent_def user_message_def trim_def is_white_space_def)
qed

subsection \<open>The context tag\<close>

text \<open>
  C9, evaluated. The tag \<^verbatim>\<open>constructor\<close> names no template, yet the lookup finds the
  property of that name inherited from \<^verbatim>\<open>Object.prototype\<close>, which is truthy, so the
  general template is not used: the content of the system message is \<^verbatim>\<open>undefined\<close>, or the
  word followed by the personal clauses, and not the content of the general template.
\<close>

theorem inherited_key_is_not_general:
  "content (fst (buildSystemPrompt (Some ''constructor'') (Some no_userInfo) default_service)) = None
   \<and> content (fst (buildSystemPrompt (Some ''general'') (Some no_userInfo) default_service))
       = Some general_content
   \<and> content (fst (buildSystemPrompt (Some ''constructor'')
         (Some (no_userInfo\<lparr>name := Some ''Ann''\<rparr>)) default_service))
       = Some (''undefined'' @ [CHR 0x0A, CHR 0x0A] @ ''The customer's name is Ann.'')"
  by (simp add: buildSystemPrompt_def systemPrompts_get_def object_prototype_keys_def
      no_userInfo_def truthy_def js_append_def new_object_def default_service_def
      new_ChatService_def chat_config_js_def Let_def)

text \<open>
  For a tag that is neither the name of a template nor the name of an inherited property,
  the content is that of the general template with the same clauses.
\<close>

lemma content_buildSystemPrompt_fallback:
  assumes "context \<notin> set [''travel'', ''booking'', ''support'', ''general'']"
    and "context \<notin> set object_prototype_keys"
  shows "content (fst (buildSystemPrompt (Some context) userInfo s))
           = content (fst (buildSystemPrompt (Some ''general'') userInfo s))"
  using assms
  by (simp add: buildSystemPrompt_def systemPrompts_get_def Let_def case_prod_beta)

end
